theory Spec2Isabelle
  imports Complex_Main
begin

section \<open>Errors and the input pipeline\<close>

text \<open>
  The exceptions of \<open>eval_lib.py\<close> that the loops let escape: the end-of-input signal of an
  input pipeline (\<open>tf.errors.OutOfRangeError\<close> or \<open>StopIteration\<close>), \<open>ValueError\<close>, and the
  \<open>IndexError\<close> of a list read out of range.
\<close>

datatype error = OutOfRangeError | ValueError | IndexError

text \<open>
  An input pipeline (\<open>base_input.BaseInput\<close>) is a resettable producer of batches. It is
  modelled as a finite sequence of batches with a read position: \<open>get_next\<close> and
  \<open>get_next_padded\<close> return the batch at the position and advance it, or raise the
  end-of-input signal when the sequence is used up; \<open>reset\<close> rewinds to the start.
  Batches are opaque, so the padding of \<open>get_next_padded\<close> is not visible and one
  function stands for both readers.
\<close>

record 'b input =
  batches :: "'b list"
  pos :: nat

definition get_next_padded :: "'b input \<Rightarrow> error + ('b \<times> 'b input)" where
  "get_next_padded inp =
     (if pos inp < length (batches inp)
      then Inr (batches inp ! pos inp, inp\<lparr>pos := Suc (pos inp)\<rparr>)
      else Inl OutOfRangeError)"

definition reset :: "'b input \<Rightarrow> 'b input" where
  "reset inp = inp\<lparr>pos := 0\<rparr>"

definition remaining :: "'b input \<Rightarrow> nat" where
  "remaining inp = length (batches inp) - pos inp"

section \<open>The evaluation loop over test splits\<close>

text \<open>
  The \<open>while\<close> loop of \<open>run_eval_loop_over_test_splits\<close> for one split. The state is the
  step counter \<open>step_num\<close>, the split's input pipeline and the list of the results of
  \<open>eval_step\<close> so far (the source appends each step's loss, metrics, per-example output and
  summaries to its accumulators). \<open>step_num\<close> is incremented before the input is read.
  On the end-of-input signal the source re-raises when \<open>num_split_steps > 0\<close>, and
  otherwise resets the input and leaves the loop.
\<close>

function eval_while ::
  "int \<Rightarrow> ('b \<Rightarrow> 'r) \<Rightarrow> int \<Rightarrow> 'b input \<Rightarrow> 'r list \<Rightarrow> error + (int \<times> 'b input \<times> 'r list)"
where
  "eval_while num_split_steps eval_step step_num inp acc =
     (if num_split_steps < 0 \<or> step_num < num_split_steps then
        (case get_next_padded inp of
           Inl e \<Rightarrow>
             if num_split_steps > 0 then Inl e
             else Inr (step_num + 1, reset inp, acc)
         | Inr (eval_inputs, inp') \<Rightarrow>
             eval_while num_split_steps eval_step (step_num + 1) inp' (acc @ [eval_step eval_inputs]))
      else Inr (step_num, inp, acc))"
  by pat_completeness auto
termination
  by (relation "measure (\<lambda>(n, f, s, inp, acc). remaining inp)")
     (auto simp: get_next_padded_def remaining_def split: if_splits)

declare eval_while.simps [simp del]

text \<open>
  The body of the \<open>for\<close> loop for one split: the counters start from zero and empty
  accumulators.
\<close>

definition eval_split :: "int \<Rightarrow> ('b \<Rightarrow> 'r) \<Rightarrow> 'b input \<Rightarrow> error + (int \<times> 'b input \<times> 'r list)" where
  "eval_split num_split_steps eval_step inp = eval_while num_split_steps eval_step 0 inp []"

text \<open>
  \<open>run_eval_loop_over_test_splits\<close>: the splits are visited in order, \<open>model_inputs[split]\<close>
  is read by index, an exception of a split ends the whole call. The result holds, per
  split, the accumulated step results (from which the source computes the metrics it
  returns) and \<open>num_eval_steps\<close>, together with the input pipelines as the loop leaves them.
\<close>

fun eval_splits ::
  "('b \<Rightarrow> 'r) \<Rightarrow> nat \<Rightarrow> int list \<Rightarrow> 'b input list \<Rightarrow> error + ('r list list \<times> int list \<times> 'b input list)"
where
  "eval_splits eval_step split [] model_inputs = Inr ([], [], model_inputs)"
| "eval_splits eval_step split (num_split_steps # rest) model_inputs =
     (if length model_inputs \<le> split then Inl IndexError
      else case eval_split num_split_steps eval_step (model_inputs ! split) of
        Inl e \<Rightarrow> Inl e
      | Inr (step_num, inp', acc) \<Rightarrow>
          (case eval_splits eval_step (Suc split) rest (model_inputs[split := inp']) of
             Inl e \<Rightarrow> Inl e
           | Inr (eval_metrics_list, num_eval_steps, model_inputs') \<Rightarrow>
               Inr (acc # eval_metrics_list, step_num # num_eval_steps, model_inputs')))"

definition run_eval_loop_over_test_splits ::
  "int list \<Rightarrow> ('b \<Rightarrow> 'r) \<Rightarrow> 'b input list \<Rightarrow> error + ('r list list \<times> int list \<times> 'b input list)"
where
  "run_eval_loop_over_test_splits num_steps eval_step model_inputs =
     eval_splits eval_step 0 num_steps model_inputs"

section \<open>Waiting for a new checkpoint and the stop decision\<close>

text \<open>
  The wait of \<open>evaluate_pmap_model\<close> and \<open>evaluate_spmd_model\<close>:
  \<^verbatim>\<open>
  new_checkpoint_step = checkpoints.retrieve_latest_checkpoint_step(checkpoint_dir)
  while new_checkpoint_step == last_checkpoint_step:
    time.sleep(60)
    new_checkpoint_step = checkpoints.retrieve_latest_checkpoint_step(checkpoint_dir)
  \<close>
  \<open>retrieve_latest_checkpoint_step\<close> returns an optional step. The store is the list of
  the values that its successive polls return. The loop has no bound of its own: the
  result is \<open>None\<close> when every poll of the list equals \<open>last_checkpoint_step\<close> (the loop is
  still waiting), and otherwise the step the loop leaves with and the polls not yet used.
\<close>

fun wait_for_new_checkpoint ::
  "int option \<Rightarrow> int option list \<Rightarrow> (int option \<times> int option list) option"
where
  "wait_for_new_checkpoint last_checkpoint_step [] = None"
| "wait_for_new_checkpoint last_checkpoint_step (new_checkpoint_step # polls) =
     (if new_checkpoint_step = last_checkpoint_step
      then wait_for_new_checkpoint last_checkpoint_step polls
      else Some (new_checkpoint_step, polls))"

text \<open>
  The stop decision of one iteration of the \<open>while True\<close> loop, after the splits have run.
  \<open>tuning_lib.should_early_stop\<close>, which hands the metrics, the step and the final-checkpoint
  flag to the early-stopping callback, is the parameter \<open>should_early_stop\<close>. The result
  lists the calls made to it (step, \<open>is_last_ckpt\<close>, metrics) and tells whether the loop is
  left (\<open>break\<close>).
\<close>

definition decide ::
  "(int \<Rightarrow> bool \<Rightarrow> 'em \<Rightarrow> bool) \<Rightarrow> int \<Rightarrow> int \<Rightarrow> int option \<Rightarrow> 'em
     \<Rightarrow> (int \<times> bool \<times> 'em) list \<times> bool"
where
  "decide should_early_stop save_interval_steps num_train_steps last_checkpoint_step eval_metrics =
     (case last_checkpoint_step of
        None \<Rightarrow> ([], False)
      | Some ckpt_step \<Rightarrow>
          (let exceeded_ckpt = ckpt_step + save_interval_steps;
               is_last_ckpt = exceeded_ckpt > num_train_steps
           in if should_early_stop ckpt_step is_last_ckpt eval_metrics
              then ([(ckpt_step, is_last_ckpt, eval_metrics)], True)
              else if is_last_ckpt then ([(ckpt_step, is_last_ckpt, eval_metrics)], True)
              else ([(ckpt_step, is_last_ckpt, eval_metrics)], False)))"

section \<open>Merging metric dictionaries\<close>

text \<open>
  \<open>_merge_clu_metrics\<close>. A dictionary of metrics is an association list with distinct
  keys, in insertion order; \<open>merge\<close> is the \<open>merge\<close> method of a \<open>clu\<close> metric. A non-empty
  \<open>metrics\<close> is a true condition in Python, an empty one a false condition.
\<close>

definition merge_clu_metrics ::
  "('m \<Rightarrow> 'm \<Rightarrow> 'm) \<Rightarrow> (string \<times> 'm) list \<Rightarrow> (string \<times> 'm) list \<Rightarrow> error + (string \<times> 'm) list"
where
  "merge_clu_metrics merge metrics updated_metrics =
     (if metrics \<noteq> [] then
        if set (map fst metrics) \<noteq> set (map fst updated_metrics) then Inl ValueError
        else Inr (map (\<lambda>(key, m). (key, merge m (the (map_of updated_metrics key)))) metrics)
      else Inr updated_metrics)"

section \<open>Train states and the EMA extraction\<close>

text \<open>
  A \<open>TrainState\<close> has a step, the model variables and the optimizer states, one per
  learner. The optimizer state of a learner is either a sequence of optax states or, for
  a vectorized model, a dictionary from prefix keys to such sequences (the source's
  comment: \<open>opt_states: [{'no_prefix': ({'count': '', 'ema': {'params': ...\<close>). An element
  of a sequence is a dictionary (a \<open>NestedMap\<close>) or something else; a value of the
  vectorized dictionary is a tuple of elements or something else. The trees of
  parameters are opaque (\<open>'v\<close>). The empty optimizer state \<open>{}\<close> is the empty list.
\<close>

datatype 'v opt_item = DictItem "(string \<times> 'v) list" | OtherItem

datatype 'v opt_stage = TupleStage "'v opt_item list" | OtherStage

datatype 'v learner_state = Chain "'v opt_item list" | Prefixed "(string \<times> 'v opt_stage) list"

record 'v train_state =
  step :: int
  mdl_vars :: 'v
  opt_states :: "'v learner_state list"

definition NO_PREFIX_KEY :: string where
  "NO_PREFIX_KEY = ''no_prefix''"

definition is_vectorized :: "'v train_state \<Rightarrow> error + bool" where
  "is_vectorized states =
     (if opt_states states = [] then Inl ValueError
      else Inr (case hd (opt_states states) of
                  Chain items \<Rightarrow> False
                | Prefixed d \<Rightarrow> NO_PREFIX_KEY \<in> set (map fst d)))"

definition trim_opt_states :: "'v train_state \<Rightarrow> 'v train_state" where
  "trim_opt_states model_states =
     \<lparr>step = step model_states, mdl_vars = mdl_vars model_states, opt_states = []\<rparr>"

text \<open>
  The loop of the branch for a model that is not vectorized: the first element that is a
  dictionary with the key \<open>ema\<close> decides.
\<close>

fun find_ema :: "'v opt_item list \<Rightarrow> 'v option" where
  "find_ema [] = None"
| "find_ema (DictItem v # rest) =
     (case map_of v ''ema'' of Some ema \<Rightarrow> Some ema | None \<Rightarrow> find_ema rest)"
| "find_ema (OtherItem # rest) = find_ema rest"

text \<open>
  The two nested loops of the branch for a vectorized model. \<open>ret\<close> starts as \<open>None\<close>;
  the first EMA entry found becomes \<open>ret\<close>, each later one is combined with it by
  \<open>jax.tree_map(lambda x, y: y if is_optax_masked_node(x) else x, ret, v.ema, ...)\<close>, which
  is the parameter \<open>tree_merge\<close> and may raise.
\<close>

fun merge_items :: "('v \<Rightarrow> 'v \<Rightarrow> error + 'v) \<Rightarrow> 'v option \<Rightarrow> 'v opt_item list \<Rightarrow> error + 'v option" where
  "merge_items tree_merge ret [] = Inr ret"
| "merge_items tree_merge ret (DictItem v # rest) =
     (case map_of v ''ema'' of
        None \<Rightarrow> merge_items tree_merge ret rest
      | Some ema \<Rightarrow>
          (case ret of
             None \<Rightarrow> merge_items tree_merge (Some ema) rest
           | Some r \<Rightarrow>
               (case tree_merge r ema of
                  Inl e \<Rightarrow> Inl e
                | Inr r' \<Rightarrow> merge_items tree_merge (Some r') rest)))"
| "merge_items tree_merge ret (OtherItem # rest) = merge_items tree_merge ret rest"

fun merge_stages :: "('v \<Rightarrow> 'v \<Rightarrow> error + 'v) \<Rightarrow> 'v option \<Rightarrow> 'v opt_stage list \<Rightarrow> error + 'v option" where
  "merge_stages tree_merge ret [] = Inr ret"
| "merge_stages tree_merge ret (TupleStage item # rest) =
     (case merge_items tree_merge ret item of
        Inl e \<Rightarrow> Inl e
      | Inr ret' \<Rightarrow> merge_stages tree_merge ret' rest)"
| "merge_stages tree_merge ret (OtherStage # rest) = merge_stages tree_merge ret rest"

definition extract_ema :: "('v \<Rightarrow> 'v \<Rightarrow> error + 'v) \<Rightarrow> 'v train_state \<Rightarrow> error + 'v train_state" where
  "extract_ema tree_merge model_states =
     (if length (opt_states model_states) \<noteq> 1 then Inl ValueError
      else case is_vectorized model_states of
        Inl e \<Rightarrow> Inl e
      | Inr False \<Rightarrow>
          (case hd (opt_states model_states) of
             Chain items \<Rightarrow>
               (case find_ema items of
                  Some ema \<Rightarrow> Inr \<lparr>step = step model_states, mdl_vars = ema, opt_states = []\<rparr>
                | None \<Rightarrow> Inl ValueError)
           | Prefixed d \<Rightarrow> Inl ValueError)
      | Inr True \<Rightarrow>
          (case hd (opt_states model_states) of
             Chain items \<Rightarrow> Inl ValueError
           | Prefixed d \<Rightarrow>
               (case merge_stages tree_merge None (map snd d) of
                  Inl e \<Rightarrow> Inl e
                | Inr None \<Rightarrow> Inl ValueError
                | Inr (Some ret) \<Rightarrow>
                    Inr \<lparr>step = step model_states, mdl_vars = ret, opt_states = []\<rparr>)))"

text \<open>
  The state that \<open>_PmapEvalRunner.get_model_states\<close> hands on: \<open>restored\<close> is what
  restoring the checkpoint gave (\<open>None\<close> when there is none), \<open>initialize_model_state\<close> is
  the fresh initialisation as a function of \<open>discard_opt_states\<close>. Replicating the state
  over the local devices and reading replica 0 back are inverse to each other and are
  left out.
\<close>

definition get_model_states ::
  "('v \<Rightarrow> 'v \<Rightarrow> error + 'v) \<Rightarrow> 'v train_state option \<Rightarrow> (bool \<Rightarrow> 'v train_state) \<Rightarrow> bool \<Rightarrow> bool
     \<Rightarrow> error + 'v train_state"
where
  "get_model_states tree_merge restored initialize_model_state use_ema track_metric =
     (let model_states =
            (case restored of
               None \<Rightarrow> initialize_model_state (\<not> use_ema)
             | Some s \<Rightarrow> if \<not> use_ema \<and> \<not> track_metric then trim_opt_states s else s)
      in if use_ema then extract_ema tree_merge model_states else Inr model_states)"

text \<open>
  The state that \<open>decode_pmap_model\<close> builds from a newly restored checkpoint in its loop.
\<close>

definition decode_pmap_restore ::
  "('v \<Rightarrow> 'v \<Rightarrow> error + 'v) \<Rightarrow> 'v train_state \<Rightarrow> bool \<Rightarrow> bool \<Rightarrow> error + 'v train_state"
where
  "decode_pmap_restore tree_merge model_states use_ema track_metric =
     (if use_ema then extract_ema tree_merge model_states
      else if \<not> track_metric then Inr (trim_opt_states model_states)
      else Inr model_states)"

section \<open>Floats, the file system and the metric tracker\<close>

text \<open>
  A Python float, as far as \<open><\<close> tells its values apart: not-a-number, the two
  infinities and the finite values. \<open>flt_less\<close> is the comparison \<open>x < y\<close> of IEEE 754:
  false whenever an operand is not a number. \<open>float_info_max\<close> is \<open>sys.float_info.max\<close>.
\<close>

datatype pyfloat = NaN | NegInf | Fin real | PosInf

fun flt_less :: "pyfloat \<Rightarrow> pyfloat \<Rightarrow> bool" where
  "flt_less NaN y = False"
| "flt_less x NaN = False"
| "flt_less PosInf y = False"
| "flt_less x NegInf = False"
| "flt_less NegInf y = True"
| "flt_less x PosInf = True"
| "flt_less (Fin a) (Fin b) = (a < b)"

definition float_info_max :: real where
  "float_info_max = (2 ^ 53 - 1) * 2 ^ 971"

text \<open>
  The status that a metric tracker keeps on durable storage, one per tracker directory.
\<close>

record tracked_metric_record =
  metric_name :: string
  metric_partition :: string
  metric_value :: pyfloat
  global_step :: int

text \<open>
  The durable storage as the decode job sees it: the directories that exist, the status
  file of each tracker directory, and the log of the destructive writes in the order in
  which they were made. A decoder output file \<open>decoder_out_{step}_shard_{process_index}\<close>
  is named by its directory, the step and the process index.
\<close>

datatype ('o, 'v) fs_write =
    Makedirs string
  | TrackerCreate string tracked_metric_record
  | TrackerUpdate string pyfloat int
  | SaveCheckpoint string "'v train_state"
  | WriteKeyValuePairs string int nat "'o list"

record ('o, 'v) filesystem =
  directories :: "string list"
  tracker_status :: "(string \<times> tracked_metric_record) list"
  write_log :: "('o, 'v) fs_write list"

definition path_join :: "string \<Rightarrow> string \<Rightarrow> string" where
  "path_join a b = a @ ''/'' @ b"

definition gfile_exists :: "('o, 'v) filesystem \<Rightarrow> string \<Rightarrow> bool" where
  "gfile_exists fs path = (path \<in> set (directories fs))"

text \<open>
  \<open>tf.io.gfile.makedirs\<close> creates the directory and every parent of it that is missing.
  \<open>path_and_parents\<close> lists the prefixes of a path that end before a separator, and the
  path itself.
\<close>

fun prefixes_at_sep :: "string \<Rightarrow> string \<Rightarrow> string list" where
  "prefixes_at_sep seen [] = [seen]"
| "prefixes_at_sep seen (c # cs) =
     (if c = CHR ''/'' then seen # prefixes_at_sep (seen @ [c]) cs
      else prefixes_at_sep (seen @ [c]) cs)"

definition path_and_parents :: "string \<Rightarrow> string list" where
  "path_and_parents path = filter (\<lambda>d. d \<noteq> []) (prefixes_at_sep [] path)"

definition makedirs :: "string \<Rightarrow> ('o, 'v) filesystem \<Rightarrow> ('o, 'v) filesystem" where
  "makedirs path fs =
     fs\<lparr>directories := path_and_parents path @ directories fs,
        write_log := write_log fs @ [Makedirs path]\<rparr>"

definition save_checkpoint :: "'v train_state \<Rightarrow> string \<Rightarrow> ('o, 'v) filesystem \<Rightarrow> ('o, 'v) filesystem" where
  "save_checkpoint model_states dir fs =
     fs\<lparr>write_log := write_log fs @ [SaveCheckpoint dir model_states]\<rparr>"

definition write_key_value_pairs ::
  "string \<Rightarrow> int \<Rightarrow> nat \<Rightarrow> 'o list \<Rightarrow> ('o, 'v) filesystem \<Rightarrow> ('o, 'v) filesystem"
where
  "write_key_value_pairs dir step_i shard key_value_pairs fs =
     fs\<lparr>write_log := write_log fs @ [WriteKeyValuePairs dir step_i shard key_value_pairs]\<rparr>"

text \<open>
  Modelled from the spec: \<open>paxml.metric_tracker_utils.MetricTracker\<close>, which
  \<open>maybe_update_min_tracked_metric\<close> constructs and updates, is not among the sources. By
  section 4.4 of the spec the tracker reads the persisted record of its key and creates
  one with the initial best value if there is none; an update replaces value and step
  in one write. The step of a record that was never updated is not given by the spec; it
  is 0 here and nothing reads it.
\<close>

definition MetricTracker ::
  "string \<Rightarrow> string \<Rightarrow> string \<Rightarrow> pyfloat \<Rightarrow> ('o, 'v) filesystem
     \<Rightarrow> tracked_metric_record \<times> ('o, 'v) filesystem"
where
  "MetricTracker dir_name m_name m_partition initial_metric_value fs =
     (case map_of (tracker_status fs) dir_name of
        Some tracker \<Rightarrow> (tracker, fs)
      | None \<Rightarrow>
          (let tracker = \<lparr>metric_name = m_name, metric_partition = m_partition,
                          metric_value = initial_metric_value, global_step = 0\<rparr>
           in (tracker,
               fs\<lparr>tracker_status := (dir_name, tracker) # tracker_status fs,
                  write_log := write_log fs @ [TrackerCreate dir_name tracker]\<rparr>)))"

text \<open>
  Modelled from the spec: \<open>MetricTracker.update\<close>, not among the sources; by section 3 of
  the spec an update is a single replacement of the record's value and step.
\<close>

definition tracker_update ::
  "string \<Rightarrow> tracked_metric_record \<Rightarrow> pyfloat \<Rightarrow> int \<Rightarrow> ('o, 'v) filesystem \<Rightarrow> ('o, 'v) filesystem"
where
  "tracker_update dir_name tracker v s fs =
     fs\<lparr>tracker_status := (dir_name, tracker\<lparr>metric_value := v, global_step := s\<rparr>) # tracker_status fs,
        write_log := write_log fs @ [TrackerUpdate dir_name v s]\<rparr>"

text \<open>
  \<open>maybe_update_min_tracked_metric\<close>. \<open>process_index\<close> is \<open>jax.process_index()\<close>. The
  checkpoint saved is replica 0 of the replicated state, which is the state itself here.
\<close>

definition maybe_update_min_tracked_metric ::
  "nat \<Rightarrow> pyfloat \<Rightarrow> int \<Rightarrow> string \<Rightarrow> string \<Rightarrow> string \<Rightarrow> 'v train_state
     \<Rightarrow> ('o, 'v) filesystem \<Rightarrow> ('o, 'v) filesystem"
where
  "maybe_update_min_tracked_metric process_index m_value step_i tracker_dir_path track_metric
       data_partition_name replicated_model_states fs =
     (if process_index = 0 then
        (let fs1 = (if \<not> gfile_exists fs tracker_dir_path then makedirs tracker_dir_path fs else fs);
             (tracker, fs2) = MetricTracker tracker_dir_path track_metric data_partition_name
                                (Fin float_info_max) fs1
         in if flt_less m_value (metric_value tracker)
            then save_checkpoint replicated_model_states tracker_dir_path
                   (tracker_update tracker_dir_path tracker m_value step_i fs2)
            else fs2)
      else fs)"

text \<open>
  Feeding the tracker of one directory a sequence of (value, step) pairs, one call after
  the other, as the decode loop does from one checkpoint to the next.
\<close>

fun track_all ::
  "nat \<Rightarrow> string \<Rightarrow> string \<Rightarrow> string \<Rightarrow> 'v train_state \<Rightarrow> (pyfloat \<times> int) list
     \<Rightarrow> ('o, 'v) filesystem \<Rightarrow> ('o, 'v) filesystem"
where
  "track_all process_index dir m part st [] fs = fs"
| "track_all process_index dir m part st ((v, s) # rest) fs =
     track_all process_index dir m part st rest
       (maybe_update_min_tracked_metric process_index v s dir m part st fs)"

text \<open>The best value on record for a tracker directory, and the persistence events.\<close>

definition best_value :: "('o, 'v) filesystem \<Rightarrow> string \<Rightarrow> pyfloat" where
  "best_value fs dir =
     (case map_of (tracker_status fs) dir of
        Some tracker \<Rightarrow> metric_value tracker
      | None \<Rightarrow> Fin float_info_max)"

fun is_tracker_update :: "('o, 'v) fs_write \<Rightarrow> bool" where
  "is_tracker_update (TrackerUpdate d v s) = True"
| "is_tracker_update w = False"

fun is_save_checkpoint :: "('o, 'v) fs_write \<Rightarrow> bool" where
  "is_save_checkpoint (SaveCheckpoint d st) = True"
| "is_save_checkpoint w = False"

section \<open>The decode pass\<close>

text \<open>
  The collaborators of a decode pass, opaque in the sources: the decode step (the
  executor) gives the weighted scalars, the per-example output and the updated \<open>clu\<close>
  metrics of a batch; \<open>process_decode_out\<close> gives two or three results, the third being
  optional; \<open>metric_merge\<close> is the \<open>merge\<close> of a \<open>clu\<close> metric; \<open>summarize\<close> turns the
  weighted scalars stored in a metrics object into its dictionary of (value, weight)
  pairs; \<open>load_outputs\<close> is \<open>io_utils.load_outputs\<close> as process 0 sees it.
\<close>

record ('b, 'ws, 'out, 'm, 'o) collaborators =
  decode_step :: "'b \<Rightarrow> 'ws \<times> 'out \<times> (string \<times> 'm) list"
  process_decode_out :: "'out \<Rightarrow> 'ws \<times> 'o list \<times> (string \<times> 'm) list option"
  metric_merge :: "'m \<Rightarrow> 'm \<Rightarrow> 'm"
  summarize :: "'ws list \<Rightarrow> (string \<times> pyfloat \<times> pyfloat) list"
  load_outputs :: "string \<Rightarrow> string \<Rightarrow> int \<Rightarrow> error + 'o list"

record job =
  process_index :: nat
  job_log_dir :: string
  track_decoder_metric :: "string option"
  pax_only_aggregate_summaries :: bool

record input_hparams =
  name :: string
  reset_for_eval :: bool
  eval_loop_num_batches :: int

text \<open>
  \<open>_can_load_decode_outs\<close>: process 0 loads the outputs, any exception counts as nothing
  loaded, and the number of outputs is broadcast to all processes, so every process
  gets the answer of process 0.
\<close>

definition can_load_decode_outs ::
  "('b, 'ws, 'out, 'm, 'o) collaborators \<Rightarrow> string \<Rightarrow> string \<Rightarrow> int \<Rightarrow> bool"
where
  "can_load_decode_outs c basedir pname step_i =
     (let success = (case load_outputs c basedir pname step_i of
                       Inl e \<Rightarrow> 0
                     | Inr outputs \<Rightarrow> int (length outputs))
      in success > 0)"

text \<open>
  The variables that the \<open>while\<close> loop of a decode pass updates, and the batches handed to
  the decode step so far (\<open>calls\<close>).
\<close>

record ('b, 'ws, 'm, 'o) decode_acc =
  calls :: "'b list"
  decode_metrics :: "'ws list"
  metrics :: "(string \<times> 'm) list"
  process_decode_metrics :: "'ws list"
  processed_decodes :: "'o list"
  processed_metrics :: "(string \<times> 'm) list"

definition empty_acc :: "('b, 'ws, 'm, 'o) decode_acc" where
  "empty_acc = \<lparr>calls = [], decode_metrics = [], metrics = [], process_decode_metrics = [],
                processed_decodes = [], processed_metrics = []\<rparr>"

text \<open>
  The post-processing of a batch's output, which both modes run on process 0 only. An
  absent or empty \<open>processed_metric_updates\<close> is a false condition.
\<close>

definition process_on_host0 ::
  "('b, 'ws, 'out, 'm, 'o) collaborators \<Rightarrow> 'out \<Rightarrow> ('b, 'ws, 'm, 'o) decode_acc
     \<Rightarrow> error + ('b, 'ws, 'm, 'o) decode_acc"
where
  "process_on_host0 c out acc =
     (case process_decode_out c out of
        (processed_scalars, processed_out, processed_metric_updates) \<Rightarrow>
          (let acc' = acc\<lparr>process_decode_metrics := process_decode_metrics acc @ [processed_scalars],
                          processed_decodes := processed_decodes acc @ processed_out\<rparr>
           in case processed_metric_updates of
                None \<Rightarrow> Inr acc'
              | Some updates \<Rightarrow>
                  if updates = [] then Inr acc'
                  else (case merge_clu_metrics (metric_merge c) (processed_metrics acc') updates of
                          Inl e \<Rightarrow> Inl e
                        | Inr pm \<Rightarrow> Inr (acc'\<lparr>processed_metrics := pm\<rparr>))))"

text \<open>The loop body of \<open>decode_once_pmap_model\<close> after the batch has been read.\<close>

definition decode_body_pmap ::
  "('b, 'ws, 'out, 'm, 'o) collaborators \<Rightarrow> nat \<Rightarrow> 'b \<Rightarrow> ('b, 'ws, 'm, 'o) decode_acc
     \<Rightarrow> error + ('b, 'ws, 'm, 'o) decode_acc"
where
  "decode_body_pmap c pidx batch acc =
     (case decode_step c batch of
        (batch_metrics, out, updated_metrics) \<Rightarrow>
          (let acc1 = acc\<lparr>calls := calls acc @ [batch],
                          decode_metrics := decode_metrics acc @ [batch_metrics]\<rparr>
           in case merge_clu_metrics (metric_merge c) (metrics acc1) updated_metrics of
                Inl e \<Rightarrow> Inl e
              | Inr ms \<Rightarrow>
                  if pidx = 0 then process_on_host0 c out (acc1\<lparr>metrics := ms\<rparr>)
                  else Inr (acc1\<lparr>metrics := ms\<rparr>)))"

text \<open>
  The loop body of \<open>decode_once_spmd_model\<close> after the batch has been read: the other
  processes \<open>continue\<close> before the weighted scalars are stored.
\<close>

definition decode_body_spmd ::
  "('b, 'ws, 'out, 'm, 'o) collaborators \<Rightarrow> nat \<Rightarrow> 'b \<Rightarrow> ('b, 'ws, 'm, 'o) decode_acc
     \<Rightarrow> error + ('b, 'ws, 'm, 'o) decode_acc"
where
  "decode_body_spmd c pidx batch acc =
     (case decode_step c batch of
        (weighted_scalars, out, updated_metrics) \<Rightarrow>
          (let acc1 = acc\<lparr>calls := calls acc @ [batch]\<rparr>
           in case merge_clu_metrics (metric_merge c) (metrics acc1) updated_metrics of
                Inl e \<Rightarrow> Inl e
              | Inr ms \<Rightarrow>
                  if pidx \<noteq> 0 then Inr (acc1\<lparr>metrics := ms\<rparr>)
                  else process_on_host0 c out
                         (acc1\<lparr>metrics := ms, decode_metrics := decode_metrics acc1 @ [weighted_scalars]\<rparr>)))"

text \<open>
  The \<open>while\<close> loop of the two decode passes, which differ in the body only. The
  end-of-input signal resets the input and leaves the loop whatever the budget is; the
  counter has been incremented by then.
\<close>

function decode_while ::
  "('b \<Rightarrow> 'a \<Rightarrow> error + 'a) \<Rightarrow> int \<Rightarrow> int \<Rightarrow> 'b input \<Rightarrow> 'a \<Rightarrow> error + (int \<times> 'b input \<times> 'a)"
where
  "decode_while body num_split_steps step_num inp acc =
     (if num_split_steps < 0 \<or> step_num < num_split_steps then
        (case get_next_padded inp of
           Inl e \<Rightarrow> Inr (step_num + 1, reset inp, acc)
         | Inr (batch, inp') \<Rightarrow>
             (case body batch acc of
                Inl e \<Rightarrow> Inl e
              | Inr acc' \<Rightarrow> decode_while body num_split_steps (step_num + 1) inp' acc'))
      else Inr (step_num, inp, acc))"
  by pat_completeness auto
termination
  by (relation "measure (\<lambda>(body, n, s, inp, acc). remaining inp)")
     (auto simp: get_next_padded_def remaining_def split: if_splits)

declare decode_while.simps [simp del]

text \<open>
  What a pass reports for its split: the entries of the source's aligned result lists
  (\<open>None\<close> for a skipped split), the number of performed steps, and the batches handed to
  the decode step.
\<close>

record ('b, 'm) split_report =
  decode_metrics_entry :: "((string \<times> pyfloat \<times> pyfloat) list \<times> (string \<times> 'm) list) option"
  processed_decode_metrics_entry :: "((string \<times> pyfloat \<times> pyfloat) list \<times> (string \<times> 'm) list) option"
  num_decode_steps :: int
  executor_calls :: "'b list"

definition skipped :: "('b, 'm) split_report" where
  "skipped = \<lparr>decode_metrics_entry = None, processed_decode_metrics_entry = None,
              num_decode_steps = 0, executor_calls = []\<rparr>"

definition num_steps_of :: "input_hparams \<Rightarrow> int" where
  "num_steps_of p = (if reset_for_eval p then - 1 else eval_loop_num_batches p)"

definition write_decoder_outputs ::
  "nat \<Rightarrow> string \<Rightarrow> string \<Rightarrow> int \<Rightarrow> 'o list \<Rightarrow> ('o, 'v) filesystem \<Rightarrow> ('o, 'v) filesystem"
where
  "write_decoder_outputs pidx basedir dirname step_i outs fs =
     (let dir_path = path_join basedir dirname;
          fs1 = (if \<not> gfile_exists fs dir_path then makedirs dir_path fs else fs)
      in write_key_value_pairs dir_path step_i pidx outs fs1)"

text \<open>
  One split of \<open>decode_once_pmap_model\<close> that is not skipped: the loop, the tracked
  metric, the decoder output file. The result is what the pass returns or the exception
  that ends it, together with the file system as the pass leaves it.
\<close>

definition decode_pass_pmap ::
  "('b, 'ws, 'out, 'm, 'o) collaborators \<Rightarrow> job \<Rightarrow> 'v train_state \<Rightarrow> input_hparams \<Rightarrow> 'b input
     \<Rightarrow> ('o, 'v) filesystem \<Rightarrow> (error + (('b, 'm) split_report \<times> 'b input)) \<times> ('o, 'v) filesystem"
where
  "decode_pass_pmap c jb replicated_model_states p inp fs =
     (let step_i = step replicated_model_states;
          basedir = path_join (job_log_dir jb) ''decoder_out''
      in case decode_while (decode_body_pmap c (process_index jb)) (num_steps_of p) 0 inp empty_acc of
           Inl e \<Rightarrow> (Inl e, fs)
         | Inr (step_num, inp', acc) \<Rightarrow>
             (let decode_metric_dict = summarize c (decode_metrics acc);
                  processed_metric_dict = summarize c (process_decode_metrics acc);
                  fs1 = (case track_decoder_metric jb of
                           None \<Rightarrow> fs
                         | Some track_metric \<Rightarrow>
                             if track_metric \<noteq> [] \<and> track_metric \<in> set (map fst processed_metric_dict)
                             then maybe_update_min_tracked_metric (process_index jb)
                                    (fst (the (map_of processed_metric_dict track_metric))) step_i
                                    (path_join (path_join basedir (name p)) (track_metric @ ''_min_tracker''))
                                    track_metric (name p) replicated_model_states fs
                             else fs);
                  fs2 = (if process_index jb = 0 \<and> \<not> pax_only_aggregate_summaries jb
                         then write_decoder_outputs (process_index jb) basedir (name p) step_i
                                (processed_decodes acc) fs1
                         else fs1)
              in (Inr (\<lparr>decode_metrics_entry = Some (decode_metric_dict, metrics acc),
                        processed_decode_metrics_entry = Some (processed_metric_dict, processed_metrics acc),
                        num_decode_steps = step_num, executor_calls = calls acc\<rparr>,
                       inp'), fs2)))"

text \<open>
  One split of \<open>decode_once_spmd_model\<close> that is not skipped. Metric tracking is not
  implemented there (the source only logs a warning).
\<close>

definition decode_pass_spmd ::
  "('b, 'ws, 'out, 'm, 'o) collaborators \<Rightarrow> job \<Rightarrow> 'v train_state \<Rightarrow> input_hparams \<Rightarrow> 'b input
     \<Rightarrow> ('o, 'v) filesystem \<Rightarrow> (error + (('b, 'm) split_report \<times> 'b input)) \<times> ('o, 'v) filesystem"
where
  "decode_pass_spmd c jb train_st p inp fs =
     (let step_i = step train_st;
          basedir = path_join (job_log_dir jb) ''decoder_out''
      in case decode_while (decode_body_spmd c (process_index jb)) (num_steps_of p) 0 inp empty_acc of
           Inl e \<Rightarrow> (Inl e, fs)
         | Inr (step_num, inp', acc) \<Rightarrow>
             (let decode_metric_dict = summarize c (decode_metrics acc);
                  processed_metric_dict = summarize c (process_decode_metrics acc);
                  fs1 = (if process_index jb = 0
                         then write_decoder_outputs (process_index jb) basedir (name p) step_i
                                (processed_decodes acc) fs
                         else fs)
              in (Inr (\<lparr>decode_metrics_entry = Some (decode_metric_dict, metrics acc),
                        processed_decode_metrics_entry = Some (processed_metric_dict, processed_metrics acc),
                        num_decode_steps = step_num, executor_calls = calls acc\<rparr>,
                       inp'), fs1)))"

text \<open>
  The \<open>for\<close> loop over the splits, the same in both modes but for the pass: a split whose
  outputs can be loaded is skipped before its input is touched, and reports \<open>None\<close>
  entries and 0 steps. An exception ends the loop; the file system keeps what was
  written before.
\<close>

fun decode_splits ::
  "(input_hparams \<Rightarrow> 'b input \<Rightarrow> ('o, 'v) filesystem
      \<Rightarrow> (error + (('b, 'm) split_report \<times> 'b input)) \<times> ('o, 'v) filesystem)
   \<Rightarrow> (string \<Rightarrow> bool) \<Rightarrow> nat \<Rightarrow> input_hparams list \<Rightarrow> 'b input list \<Rightarrow> ('o, 'v) filesystem
   \<Rightarrow> (error + (('b, 'm) split_report list \<times> 'b input list)) \<times> ('o, 'v) filesystem"
where
  "decode_splits pass can_load split [] inputs fs = (Inr ([], inputs), fs)"
| "decode_splits pass can_load split (p # rest) inputs fs =
     (if can_load (name p) then
        (case decode_splits pass can_load (Suc split) rest inputs fs of
           (Inl e, fs') \<Rightarrow> (Inl e, fs')
         | (Inr (reports, inputs'), fs') \<Rightarrow> (Inr (skipped # reports, inputs'), fs'))
      else if length inputs \<le> split then (Inl IndexError, fs)
      else case pass p (inputs ! split) fs of
        (Inl e, fs1) \<Rightarrow> (Inl e, fs1)
      | (Inr (report, inp'), fs1) \<Rightarrow>
          (case decode_splits pass can_load (Suc split) rest (inputs[split := inp']) fs1 of
             (Inl e, fs') \<Rightarrow> (Inl e, fs')
           | (Inr (reports, inputs'), fs') \<Rightarrow> (Inr (report # reports, inputs'), fs')))"

definition decode_once_pmap_model ::
  "('b, 'ws, 'out, 'm, 'o) collaborators \<Rightarrow> job \<Rightarrow> 'v train_state \<Rightarrow> input_hparams list
     \<Rightarrow> 'b input list \<Rightarrow> ('o, 'v) filesystem
     \<Rightarrow> (error + (('b, 'm) split_report list \<times> 'b input list)) \<times> ('o, 'v) filesystem"
where
  "decode_once_pmap_model c jb replicated_model_states input_p inputs fs =
     (if input_p = [] then (Inr ([], inputs), fs)
      else decode_splits (decode_pass_pmap c jb replicated_model_states)
             (\<lambda>pname. can_load_decode_outs c (job_log_dir jb) pname (step replicated_model_states))
             0 input_p inputs fs)"

definition decode_once_spmd_model ::
  "('b, 'ws, 'out, 'm, 'o) collaborators \<Rightarrow> job \<Rightarrow> 'v train_state \<Rightarrow> input_hparams list
     \<Rightarrow> 'b input list \<Rightarrow> ('o, 'v) filesystem
     \<Rightarrow> (error + (('b, 'm) split_report list \<times> 'b input list)) \<times> ('o, 'v) filesystem"
where
  "decode_once_spmd_model c jb train_st input_p inputs fs =
     decode_splits (decode_pass_spmd c jb train_st)
       (\<lambda>pname. can_load_decode_outs c (job_log_dir jb) pname (step train_st))
       0 input_p inputs fs"

section \<open>Reference notions for the statements\<close>

text \<open>
  The values on which the tracker improves when it is fed a sequence of (value, step)
  pairs starting from the best value \<open>best\<close>: those strictly smaller than the best
  value before them.
\<close>

fun improvements :: "pyfloat \<Rightarrow> (pyfloat \<times> int) list \<Rightarrow> (pyfloat \<times> int) list" where
  "improvements best [] = []"
| "improvements best ((v, s) # rest) =
     (if flt_less v best then (v, s) # improvements v rest else improvements best rest)"

text \<open>
  The EMA entries of a learner's optimizer state, in the order in which the loops of
  \<open>extract_ema\<close> meet them, and the combination of a non-empty list of them by
  \<open>tree_merge\<close>, from the left.
\<close>

fun item_entries :: "'v opt_item list \<Rightarrow> 'v list" where
  "item_entries [] = []"
| "item_entries (DictItem v # rest) =
     (case map_of v ''ema'' of Some ema \<Rightarrow> ema # item_entries rest | None \<Rightarrow> item_entries rest)"
| "item_entries (OtherItem # rest) = item_entries rest"

fun stage_entries :: "'v opt_stage list \<Rightarrow> 'v list" where
  "stage_entries [] = []"
| "stage_entries (TupleStage item # rest) = item_entries item @ stage_entries rest"
| "stage_entries (OtherStage # rest) = stage_entries rest"

fun ema_entries :: "'v learner_state \<Rightarrow> 'v list" where
  "ema_entries (Chain items) = item_entries items"
| "ema_entries (Prefixed d) = stage_entries (map snd d)"

fun merge_all :: "('v \<Rightarrow> 'v \<Rightarrow> error + 'v) \<Rightarrow> 'v \<Rightarrow> 'v list \<Rightarrow> error + 'v" where
  "merge_all tree_merge r [] = Inr r"
| "merge_all tree_merge r (ema # rest) =
     (case tree_merge r ema of Inl e \<Rightarrow> Inl e | Inr r' \<Rightarrow> merge_all tree_merge r' rest)"

section \<open>Concrete values for the examples\<close>

definition example_collaborators :: "(nat, unit, nat, unit, nat) collaborators" where
  "example_collaborators =
     \<lparr>decode_step = (\<lambda>b. ((), b, [])), process_decode_out = (\<lambda>out. ((), [out], None)),
      metric_merge = (\<lambda>a b. a), summarize = (\<lambda>ws. [(''wer'', Fin 1, Fin 1)]),
      load_outputs = (\<lambda>basedir pname s. Inl IndexError)\<rparr>"

text \<open>The same collaborators when the outputs of every split can be loaded.\<close>

definition loaded_collaborators :: "(nat, unit, nat, unit, nat) collaborators" where
  "loaded_collaborators = example_collaborators\<lparr>load_outputs := (\<lambda>basedir pname s. Inr [0])\<rparr>"

text \<open>A decode job on the process with index \<open>pidx\<close> that tracks the metric \<open>wer\<close>.\<close>

definition example_job :: "nat \<Rightarrow> job" where
  "example_job pidx = \<lparr>process_index = pidx, job_log_dir = ''job'', track_decoder_metric = Some ''wer'',
                        pax_only_aggregate_summaries = False\<rparr>"

definition example_split :: input_hparams where
  "example_split = \<lparr>name = ''test'', reset_for_eval = False, eval_loop_num_batches = 2\<rparr>"

definition empty_fs :: "(nat, nat) filesystem" where
  "empty_fs = \<lparr>directories = [], tracker_status = [], write_log = []\<rparr>"

text \<open>
  Train states over trees that are numbers, where 0 stands for a masked node: a state
  with one learner whose optimizer state holds an EMA entry, its vectorized form, and a
  fresh initialisation. \<open>keep_unmasked\<close> is the merge of two such trees.
\<close>

definition keep_unmasked :: "nat \<Rightarrow> nat \<Rightarrow> error + nat" where
  "keep_unmasked x y = Inr (if x = 0 then y else x)"

definition example_state :: "nat train_state" where
  "example_state =
     \<lparr>step = 100, mdl_vars = 1,
      opt_states = [Chain [OtherItem, DictItem [(''count'', 3), (''ema'', 7)]]]\<rparr>"

definition vectorized_state :: "nat train_state" where
  "vectorized_state =
     \<lparr>step = 100, mdl_vars = 1,
      opt_states = [Prefixed [(''no_prefix'', TupleStage [DictItem [(''count'', 3), (''ema'', 0)]]),
                              (''p#2'', TupleStage [OtherItem, DictItem [(''ema'', 7)]])]]\<rparr>"

definition fresh_state :: "bool \<Rightarrow> nat train_state" where
  "fresh_state discard_opt_states =
     \<lparr>step = 0, mdl_vars = 0,
      opt_states = (if discard_opt_states then [] else [Chain [DictItem [(''ema'', 0)]]])\<rparr>"

text \<open>Two early-stopping callbacks: one that always asks to stop, one that never does.\<close>

definition always_stop :: "int \<Rightarrow> bool \<Rightarrow> unit \<Rightarrow> bool" where
  "always_stop ckpt_step is_last_ckpt eval_metrics = True"

definition never_stop :: "int \<Rightarrow> bool \<Rightarrow> unit \<Rightarrow> bool" where
  "never_stop ckpt_step is_last_ckpt eval_metrics = False"

section \<open>The evaluation loop: what a pass returns\<close>

text \<open>
  Three cases describe the loop of one split completely: a negative budget runs until
  the input ends; a budget already reached returns at once; a positive budget that is
  not yet reached either finds enough batches or raises.
\<close>

lemma eval_while_exhaust:
  "num_split_steps < 0 \<Longrightarrow>
   eval_while num_split_steps eval_step step_num inp acc =
     Inr (step_num + int (remaining inp) + 1, reset inp,
          acc @ map eval_step (drop (pos inp) (batches inp)))"
proof (induction num_split_steps eval_step step_num inp acc rule: eval_while.induct)
  case (1 n f s inp acc)
  show ?case
  proof (cases "pos inp < length (batches inp)")
    case True
    then have g: "get_next_padded inp = Inr (batches inp ! pos inp, inp\<lparr>pos := Suc (pos inp)\<rparr>)"
      by (simp add: get_next_padded_def)
    have d: "drop (pos inp) (batches inp) = batches inp ! pos inp # drop (Suc (pos inp)) (batches inp)"
      using True by (simp add: Cons_nth_drop_Suc)
    from "1.IH" [OF _ g refl] "1.prems"
    have "eval_while n f (s + 1) (inp\<lparr>pos := Suc (pos inp)\<rparr>) (acc @ [f (batches inp ! pos inp)]) =
       Inr (s + 1 + int (remaining (inp\<lparr>pos := Suc (pos inp)\<rparr>)) + 1, reset (inp\<lparr>pos := Suc (pos inp)\<rparr>),
          (acc @ [f (batches inp ! pos inp)]) @ map f (drop (Suc (pos inp)) (batches inp)))"
      by simp
    with True g d "1.prems" show ?thesis
      by (subst eval_while.simps) (simp add: remaining_def reset_def)
  next
    case False
    then have g: "get_next_padded inp = Inl OutOfRangeError"
      by (simp add: get_next_padded_def)
    with False "1.prems" show ?thesis
      by (subst eval_while.simps) (simp add: remaining_def)
  qed
qed

lemma eval_while_done:
  "0 \<le> num_split_steps \<Longrightarrow> num_split_steps \<le> step_num \<Longrightarrow>
   eval_while num_split_steps eval_step step_num inp acc = Inr (step_num, inp, acc)"
  by (subst eval_while.simps) simp

lemma eval_while_budget:
  "0 \<le> step_num \<Longrightarrow> step_num < num_split_steps \<Longrightarrow>
   eval_while num_split_steps eval_step step_num inp acc =
     (if int (remaining inp) < num_split_steps - step_num then Inl OutOfRangeError
      else Inr (num_split_steps, inp\<lparr>pos := pos inp + nat (num_split_steps - step_num)\<rparr>,
                acc @ map eval_step (take (nat (num_split_steps - step_num)) (drop (pos inp) (batches inp)))))"
proof (induction num_split_steps eval_step step_num inp acc rule: eval_while.induct)
  case (1 n f s inp acc)
  show ?case
  proof (cases "pos inp < length (batches inp)")
    case False
    then have g: "get_next_padded inp = Inl OutOfRangeError"
      by (simp add: get_next_padded_def)
    with False "1.prems" show ?thesis
      by (subst eval_while.simps) (simp add: remaining_def)
  next
    case True
    let ?inp' = "inp\<lparr>pos := Suc (pos inp)\<rparr>"
    let ?acc' = "acc @ [f (batches inp ! pos inp)]"
    from True have g: "get_next_padded inp = Inr (batches inp ! pos inp, ?inp')"
      by (simp add: get_next_padded_def)
    have d: "drop (pos inp) (batches inp) = batches inp ! pos inp # drop (Suc (pos inp)) (batches inp)"
      using True by (simp add: Cons_nth_drop_Suc)
    have unf: "eval_while n f s inp acc = eval_while n f (s + 1) ?inp' ?acc'"
      using "1.prems" g by (subst eval_while.simps) simp
    show ?thesis
    proof (cases "s + 1 < n")
      case False
      with "1.prems" have n: "n = s + 1" by simp
      have "eval_while n f (s + 1) ?inp' ?acc' = Inr (s + 1, ?inp', ?acc')"
        using n "1.prems" by (intro eval_while_done) simp_all
      with unf n True d show ?thesis
        by (simp add: remaining_def)
    next
      case less: True
      have k: "nat (n - s) = Suc (nat (n - (s + 1)))"
        using less "1.prems" by simp
      from "1.IH" [OF _ g refl] "1.prems" less
      have "eval_while n f (s + 1) ?inp' ?acc' =
        (if int (remaining ?inp') < n - (s + 1) then Inl OutOfRangeError
         else Inr (n, ?inp'\<lparr>pos := pos ?inp' + nat (n - (s + 1))\<rparr>,
                ?acc' @ map f (take (nat (n - (s + 1))) (drop (pos ?inp') (batches ?inp')))))"
        by simp
      with unf True d k show ?thesis
        by (auto simp: remaining_def)
    qed
  qed
qed

text \<open>
  A pass with budget 3 over an input of at least 3 batches performs 3 steps, reports 3
  and leaves the input after the third batch.
\<close>

lemma budget_three_reports_three:
  "3 \<le> remaining inp \<Longrightarrow>
   eval_split 3 eval_step inp =
     Inr (3, inp\<lparr>pos := pos inp + 3\<rparr>, map eval_step (take 3 (drop (pos inp) (batches inp))))"
  by (simp add: eval_split_def eval_while_budget)

text \<open>
  Claim C1 (performed-step count). The claim says that the count a pass reports equals
  the number of batches it consumed, and that a pass with \<open>step_budget = -1\<close> over 5
  batches reports 5. The loops increment \<open>step_num\<close> before they read the input, so the
  read that meets the end of the input is counted as well: over exactly 5 batches with
  budget \<open>-1\<close>, \<open>run_eval_loop_over_test_splits\<close> runs the evaluation step 5 times, resets
  the input and returns \<open>num_eval_steps = [6]\<close>; the loop of \<open>decode_once_spmd_model\<close>
  hands 5 batches to the decode step and leaves with \<open>step_num = 6\<close>.
\<close>

theorem exhausted_pass_reports_one_step_more:
  "run_eval_loop_over_test_splits [- 1] eval_step [\<lparr>batches = [b1, b2, b3, b4, b5], pos = 0\<rparr>] =
     Inr ([[eval_step b1, eval_step b2, eval_step b3, eval_step b4, eval_step b5]], [6],
          [\<lparr>batches = [b1, b2, b3, b4, b5], pos = 0\<rparr>])
   \<and> decode_while (decode_body_spmd example_collaborators 0) (- 1) 0
        \<lparr>batches = [1, 2, 3, 4, 5], pos = 0\<rparr> empty_acc =
     Inr (6, \<lparr>batches = [1, 2, 3, 4, 5], pos = 0\<rparr>,
          \<lparr>calls = [1, 2, 3, 4, 5], decode_metrics = [(), (), (), (), ()], metrics = [],
           process_decode_metrics = [(), (), (), (), ()], processed_decodes = [1, 2, 3, 4, 5],
           processed_metrics = []\<rparr>)"
proof
  show "run_eval_loop_over_test_splits [- 1] eval_step [\<lparr>batches = [b1, b2, b3, b4, b5], pos = 0\<rparr>] =
     Inr ([[eval_step b1, eval_step b2, eval_step b3, eval_step b4, eval_step b5]], [6],
          [\<lparr>batches = [b1, b2, b3, b4, b5], pos = 0\<rparr>])"
    by (simp add: run_eval_loop_over_test_splits_def eval_split_def eval_while_exhaust
        remaining_def reset_def)
  show "decode_while (decode_body_spmd example_collaborators 0) (- 1) 0
        \<lparr>batches = [1, 2, 3, 4, 5], pos = 0\<rparr> empty_acc =
     Inr (6, \<lparr>batches = [1, 2, 3, 4, 5], pos = 0\<rparr>,
          \<lparr>calls = [1, 2, 3, 4, 5], decode_metrics = [(), (), (), (), ()], metrics = [],
           process_decode_metrics = [(), (), (), (), ()], processed_decodes = [1, 2, 3, 4, 5],
           processed_metrics = []\<rparr>)"
    by (simp add: decode_while.simps get_next_padded_def reset_def decode_body_spmd_def
        example_collaborators_def merge_clu_metrics_def process_on_host0_def empty_acc_def)
qed

text \<open>
  Claim C2 (exhaustion and the budget), for the loop of \<open>run_eval_loop_over_test_splits\<close>.
  A pass that has performed \<open>step_num\<close> steps raises if and only if its budget is
  positive, not yet reached, and larger than what the input still holds; the exception
  is the end-of-input signal itself; with a negative budget the pass returns, and the
  input it returns has been reset.
\<close>

theorem exhaustion_raises_iff_positive_budget_unmet:
  "0 \<le> step_num \<Longrightarrow>
   ((\<exists>e. eval_while num_split_steps eval_step step_num inp acc = Inl e) \<longleftrightarrow>
      (0 < num_split_steps \<and> step_num < num_split_steps \<and>
       int (remaining inp) < num_split_steps - step_num))
   \<and> (\<forall>e. eval_while num_split_steps eval_step step_num inp acc = Inl e \<longrightarrow> e = OutOfRangeError)
   \<and> (num_split_steps < 0 \<longrightarrow>
        (\<exists>k acc'. eval_while num_split_steps eval_step step_num inp acc = Inr (k, reset inp, acc')))"
proof -
  assume s: "0 \<le> step_num"
  consider (neg) "num_split_steps < 0"
    | (reached) "0 \<le> num_split_steps" "num_split_steps \<le> step_num"
    | (run) "0 \<le> num_split_steps" "step_num < num_split_steps"
    by linarith
  then show ?thesis
  proof cases
    case neg
    then show ?thesis by (simp add: eval_while_exhaust)
  next
    case reached
    then show ?thesis by (simp add: eval_while_done)
  next
    case run
    with s show ?thesis by (simp add: eval_while_budget)
  qed
qed

theorem exhaustion_raises_iff_positive_budget_unmet_witness:
  "(0::int) \<le> 0
   \<and> eval_while 3 id 0 \<lparr>batches = [1::nat, 2], pos = 0\<rparr> [] = Inl OutOfRangeError
   \<and> (\<exists>k acc'. eval_while (- 1) id 0 \<lparr>batches = [1::nat, 2], pos = 1\<rparr> [] =
         Inr (k, \<lparr>batches = [1::nat, 2], pos = 0\<rparr>, acc'))"
  using exhaustion_raises_iff_positive_budget_unmet [of 0 3 id "\<lparr>batches = [1::nat, 2], pos = 0\<rparr>" "[]"]
    exhaustion_raises_iff_positive_budget_unmet [of 0 "- 1" id "\<lparr>batches = [1::nat, 2], pos = 1\<rparr>" "[]"]
  by (auto simp: remaining_def reset_def)

section \<open>Waiting for a new checkpoint\<close>

lemma wait_returns_shape:
  "wait_for_new_checkpoint known polls = Some (new, rest) \<Longrightarrow>
   new \<noteq> known \<and> (\<exists>waited. polls = waited @ new # rest \<and> set waited \<subseteq> {known})"
proof (induction polls)
  case Nil
  then show ?case by simp
next
  case (Cons p polls)
  show ?case
  proof (cases "p = known")
    case True
    with Cons.prems have "wait_for_new_checkpoint known polls = Some (new, rest)" by simp
    then obtain waited where "new \<noteq> known" "polls = waited @ new # rest" "set waited \<subseteq> {known}"
      using Cons.IH by blast
    with True have "p # polls = (p # waited) @ new # rest \<and> set (p # waited) \<subseteq> {known}" by simp
    with \<open>new \<noteq> known\<close> show ?thesis by blast
  next
    case False
    with Cons.prems have "new = p" "rest = polls" by simp_all
    with False have "p # polls = [] @ new # rest \<and> set [] \<subseteq> {known}" by simp
    with False \<open>new = p\<close> show ?thesis by blast
  qed
qed

lemma wait_returns_iff:
  "(\<exists>r. wait_for_new_checkpoint known polls = Some r) \<longleftrightarrow> (\<exists>p \<in> set polls. p \<noteq> known)"
  by (induction polls) auto

text \<open>
  Claim C3 (the step the wait returns), as the code has it. The claim says that the wait
  entered after step \<open>known_step\<close> returns only a strictly greater step, whatever the
  polls return. The loop compares with \<open>==\<close> only: it returns the first poll that differs
  from the known step, after polls that all equal it; it returns if and only if some
  poll differs; and the step returned is strictly greater than \<open>known_step\<close> when every
  poll returns a step that is not smaller than \<open>known_step\<close>.
\<close>

theorem wait_returns_a_different_step:
  "(wait_for_new_checkpoint known polls = Some (new, rest) \<longrightarrow>
      new \<noteq> known \<and> (\<exists>waited. polls = waited @ new # rest \<and> set waited \<subseteq> {known}))
   \<and> ((\<exists>r. wait_for_new_checkpoint known polls = Some r) \<longleftrightarrow> (\<exists>p \<in> set polls. p \<noteq> known))
   \<and> (known = Some known_step \<longrightarrow> (\<forall>p \<in> set polls. \<exists>k. p = Some k \<and> known_step \<le> k) \<longrightarrow>
        wait_for_new_checkpoint known polls = Some (new, rest) \<longrightarrow>
        (\<exists>k. new = Some k \<and> known_step < k))"
proof (intro conjI impI)
  assume r: "wait_for_new_checkpoint known polls = Some (new, rest)"
  then show "new \<noteq> known" using wait_returns_shape by blast
  from r show "\<exists>waited. polls = waited @ new # rest \<and> set waited \<subseteq> {known}"
    using wait_returns_shape by blast
next
  show "(\<exists>r. wait_for_new_checkpoint known polls = Some r) \<longleftrightarrow> (\<exists>p \<in> set polls. p \<noteq> known)"
    by (rule wait_returns_iff)
next
  assume k: "known = Some known_step"
    and mono: "\<forall>p \<in> set polls. \<exists>k. p = Some k \<and> known_step \<le> k"
    and r: "wait_for_new_checkpoint known polls = Some (new, rest)"
  from r obtain waited where ne: "new \<noteq> known" and p: "polls = waited @ new # rest"
    using wait_returns_shape by blast
  from p have "new \<in> set polls" by simp
  with mono obtain j where "new = Some j" "known_step \<le> j" by blast
  with ne k show "\<exists>k. new = Some k \<and> known_step < k" by auto
qed

theorem wait_returns_a_different_step_witness:
  "wait_for_new_checkpoint (Some 10) [Some 10, Some 10, Some 20, Some 15] = Some (Some 20, [Some 15])
   \<and> (\<exists>k. Some (20::int) = Some k \<and> 10 < k)"
  using wait_returns_a_different_step [of "Some 10" "[Some 10, Some 10, Some 20]" "Some 20" "[]" 10]
  by simp

text \<open>
  Against C3 as stated: after step 20, a store whose polls return 20 and then the stale
  step 15 makes the wait return 15.
\<close>

theorem wait_returns_a_smaller_step:
  "wait_for_new_checkpoint (Some 20) [Some 20, Some 15] = Some (Some 15, []) \<and> \<not> (20::int) < 15"
  by simp

section \<open>The stop decision\<close>

text \<open>
  Claim C4 (early stopping), as the code has it. The claim says that every iteration
  calls the early-stopping callback. The source does so under the guard
  \<open>if last_checkpoint_step is not None\<close>: with a checkpoint step \<open>s\<close> the callback is
  called once, with \<open>s\<close>, the flag \<open>s + save_interval_steps > num_train_steps\<close> and the
  metrics, and the loop is left if and only if the callback returns true or the flag is
  true; with no checkpoint step the callback is not called and the loop goes on to wait.
\<close>

theorem stop_decision:
  "(last_checkpoint_step = None \<longrightarrow>
      decide should_early_stop save_interval_steps num_train_steps last_checkpoint_step eval_metrics = ([], False))
   \<and> (last_checkpoint_step = Some s \<longrightarrow>
      fst (decide should_early_stop save_interval_steps num_train_steps last_checkpoint_step eval_metrics) =
        [(s, s + save_interval_steps > num_train_steps, eval_metrics)]
      \<and> (snd (decide should_early_stop save_interval_steps num_train_steps last_checkpoint_step eval_metrics) \<longleftrightarrow>
           should_early_stop s (s + save_interval_steps > num_train_steps) eval_metrics
           \<or> s + save_interval_steps > num_train_steps))"
  by (simp add: decide_def Let_def)

text \<open>
  Against C4 as stated: with no checkpoint step, a callback that would ask to stop is
  not called and the loop is not left.
\<close>

theorem no_checkpoint_no_callback:
  "always_stop 0 False () \<and> decide always_stop 10 100 None () = ([], False)"
  by (simp add: decide_def always_stop_def)

theorem stop_decision_witness:
  "decide never_stop 10 100 (Some 95) () = ([(95, True, ())], True)
   \<and> decide never_stop 10 100 (Some 50) () = ([(50, False, ())], False)
   \<and> decide always_stop 10 100 (Some 50) () = ([(50, False, ())], True)
   \<and> decide always_stop 10 100 None () = ([], False)"
  using stop_decision [of "Some 95" never_stop 10 100 "()" 95] stop_decision [of "Some 50" never_stop 10 100 "()" 50]
    stop_decision [of "Some 50" always_stop 10 100 "()" 50] stop_decision [of None always_stop 10 100 "()" 0]
  by (simp add: prod_eq_iff never_stop_def always_stop_def)

section \<open>Merging metric dictionaries: the properties\<close>

lemma map_of_merged:
  "map_of (map (\<lambda>(key, m). (key, f key m)) ms) k = map_option (f k) (map_of ms k)"
  by (induction ms) auto

text \<open>
  Claim C6 (merging accumulators), as the code has it. The claim says that merging with
  an empty accumulator is the identity and that the merge raises if and only if both
  accumulators are populated and their key sets differ. The source tests the existing
  dictionary only: merging into an empty dictionary returns the update; the merge raises
  if and only if the existing dictionary is populated and the key sets differ, which
  includes an empty update; with equal key sets every key of the existing dictionary is
  merged with the update's value for it, in the existing order.
\<close>

theorem merge_clu_metrics_spec:
  "merge_clu_metrics merge [] updated_metrics = Inr updated_metrics
   \<and> ((\<exists>e. merge_clu_metrics merge existing updated_metrics = Inl e) \<longleftrightarrow>
        existing \<noteq> [] \<and> set (map fst existing) \<noteq> set (map fst updated_metrics))
   \<and> (existing \<noteq> [] \<longrightarrow> set (map fst existing) = set (map fst updated_metrics) \<longrightarrow>
        (\<exists>merged. merge_clu_metrics merge existing updated_metrics = Inr merged
           \<and> map fst merged = map fst existing
           \<and> (\<forall>key a b. map_of existing key = Some a \<longrightarrow> map_of updated_metrics key = Some b \<longrightarrow>
                 map_of merged key = Some (merge a b))))"
proof (intro conjI impI)
  show "merge_clu_metrics merge [] updated_metrics = Inr updated_metrics"
    by (simp add: merge_clu_metrics_def)
  show "(\<exists>e. merge_clu_metrics merge existing updated_metrics = Inl e) \<longleftrightarrow>
        existing \<noteq> [] \<and> set (map fst existing) \<noteq> set (map fst updated_metrics)"
    by (simp add: merge_clu_metrics_def)
next
  assume ne: "existing \<noteq> []" and keys: "set (map fst existing) = set (map fst updated_metrics)"
  let ?merged = "map (\<lambda>(key, m). (key, merge m (the (map_of updated_metrics key)))) existing"
  have r: "merge_clu_metrics merge existing updated_metrics = Inr ?merged"
    using ne keys by (simp add: merge_clu_metrics_def)
  have k: "map fst ?merged = map fst existing"
    by (induction existing) auto
  have v: "map_of ?merged key = Some (merge a b)"
    if "map_of existing key = Some a" "map_of updated_metrics key = Some b" for key a b
    using that map_of_merged [of "\<lambda>key m. merge m (the (map_of updated_metrics key))" existing key]
    by simp
  from r k v show "\<exists>merged. merge_clu_metrics merge existing updated_metrics = Inr merged
           \<and> map fst merged = map fst existing
           \<and> (\<forall>key a b. map_of existing key = Some a \<longrightarrow> map_of updated_metrics key = Some b \<longrightarrow>
                 map_of merged key = Some (merge a b))"
    by blast
qed

text \<open>
  Against C6 as stated: merging an empty update into a populated dictionary raises,
  though the update is not populated, and so is not the identity.
\<close>

theorem merge_with_empty_update_raises:
  "merge_clu_metrics (+) [(''loss'', 1::nat)] [] = Inl ValueError
   \<and> \<not> ([(''loss'', 1::nat)] \<noteq> [] \<and> ([] :: (string \<times> nat) list) \<noteq> []
        \<and> set (map fst [(''loss'', 1::nat)]) \<noteq> set (map fst ([] :: (string \<times> nat) list)))"
  by (simp add: merge_clu_metrics_def)

theorem merge_clu_metrics_spec_witness:
  "merge_clu_metrics (+) [] [(''loss'', 2::nat)] = Inr [(''loss'', 2)]
   \<and> merge_clu_metrics (+) [(''loss'', 1::nat)] [(''accuracy'', 5)] = Inl ValueError
   \<and> merge_clu_metrics (+) [(''loss'', 1::nat)] [(''loss'', 2)] = Inr [(''loss'', 3)]"
  using merge_clu_metrics_spec [of "(+)" "[(''loss'', 2::nat)]" "[(''loss'', 1::nat)]"]
    merge_clu_metrics_spec [of "(+)" "[(''accuracy'', 5::nat)]" "[(''loss'', 1::nat)]"]
  by (simp add: merge_clu_metrics_def)

section \<open>The EMA extraction: the properties\<close>

lemma find_ema_entries:
  "find_ema items = (case item_entries items of [] \<Rightarrow> None | ema # rest \<Rightarrow> Some ema)"
  by (induction items rule: find_ema.induct) (auto split: option.splits)

lemma merge_all_append:
  "merge_all tree_merge r (xs @ ys) =
     (case merge_all tree_merge r xs of Inl e \<Rightarrow> Inl e | Inr r' \<Rightarrow> merge_all tree_merge r' ys)"
  by (induction xs arbitrary: r) (auto split: sum.splits)

lemma merge_items_Some:
  "merge_items tree_merge (Some r) items =
     (case merge_all tree_merge r (item_entries items) of Inl e \<Rightarrow> Inl e | Inr r' \<Rightarrow> Inr (Some r'))"
  by (induction items arbitrary: r rule: item_entries.induct) (auto split: option.splits sum.splits)

lemma merge_items_None:
  "merge_items tree_merge None items =
     (case item_entries items of
        [] \<Rightarrow> Inr None
      | ema # rest \<Rightarrow>
          (case merge_all tree_merge ema rest of Inl e \<Rightarrow> Inl e | Inr r' \<Rightarrow> Inr (Some r')))"
  by (induction items rule: item_entries.induct) (auto simp: merge_items_Some split: option.splits sum.splits)

lemma merge_stages_Some:
  "merge_stages tree_merge (Some r) stages =
     (case merge_all tree_merge r (stage_entries stages) of Inl e \<Rightarrow> Inl e | Inr r' \<Rightarrow> Inr (Some r'))"
  by (induction stages arbitrary: r rule: stage_entries.induct)
     (auto simp: merge_items_Some merge_all_append split: sum.splits)

lemma merge_stages_None:
  "merge_stages tree_merge None stages =
     (case stage_entries stages of
        [] \<Rightarrow> Inr None
      | ema # rest \<Rightarrow>
          (case merge_all tree_merge ema rest of Inl e \<Rightarrow> Inl e | Inr r' \<Rightarrow> Inr (Some r')))"
  by (induction stages rule: stage_entries.induct)
     (auto simp: merge_items_None merge_stages_Some merge_all_append split: sum.splits list.splits)

lemma extract_ema_result:
  assumes "extract_ema tree_merge model_states = Inr r"
  shows "step r = step model_states \<and> opt_states r = [] \<and>
     (\<exists>l. opt_states model_states = [l] \<and> ema_entries l \<noteq> [] \<and>
        (case l of
           Chain items \<Rightarrow> mdl_vars r = hd (ema_entries l)
         | Prefixed d \<Rightarrow> merge_all tree_merge (hd (ema_entries l)) (tl (ema_entries l)) = Inr (mdl_vars r)))"
proof -
  from assms have len: "length (opt_states model_states) = 1"
    by (auto simp: extract_ema_def split: if_splits)
  then obtain l where l: "opt_states model_states = [l]"
    by (cases "opt_states model_states") auto
  show ?thesis
  proof (cases l)
    case (Chain items)
    with assms l show ?thesis
      by (auto simp: extract_ema_def is_vectorized_def find_ema_entries split: list.splits)
  next
    case (Prefixed d)
    with assms l show ?thesis
      by (auto simp: extract_ema_def is_vectorized_def merge_stages_None
          split: list.splits if_splits sum.splits option.splits bool.splits)
  qed
qed

lemma extract_ema_no_entries:
  "opt_states model_states = [l] \<Longrightarrow> ema_entries l = [] \<Longrightarrow>
   extract_ema tree_merge model_states = Inl ValueError"
  by (cases l)
     (auto simp: extract_ema_def is_vectorized_def find_ema_entries merge_stages_None
        split: bool.splits)

lemma extract_ema_chain:
  "opt_states model_states = [Chain items] \<Longrightarrow> item_entries items \<noteq> [] \<Longrightarrow>
   extract_ema tree_merge model_states =
     Inr \<lparr>step = step model_states, mdl_vars = hd (item_entries items), opt_states = []\<rparr>"
  by (auto simp: extract_ema_def is_vectorized_def find_ema_entries split: list.splits)

text \<open>
  Claim C10 (\<open>extract_ema\<close>). A state that does not have exactly one learner's optimizer
  state raises \<open>ValueError\<close>; so does a state in whose optimizer state no EMA entry is
  found. A state that \<open>extract_ema\<close> returns has the step of the input, an empty
  optimizer state, and as model variables the EMA tree: the first EMA entry for a model
  that is not vectorized, the combination of all EMA entries for a vectorized one. A
  state with one learner that is not vectorized and has an EMA entry is accepted.
\<close>

theorem extract_ema_spec:
  "(length (opt_states model_states) \<noteq> 1 \<longrightarrow> extract_ema tree_merge model_states = Inl ValueError)
   \<and> (\<forall>l. opt_states model_states = [l] \<longrightarrow> ema_entries l = [] \<longrightarrow>
          extract_ema tree_merge model_states = Inl ValueError)
   \<and> (\<forall>r. extract_ema tree_merge model_states = Inr r \<longrightarrow>
          step r = step model_states \<and> opt_states r = [] \<and>
          (\<exists>l. opt_states model_states = [l] \<and> ema_entries l \<noteq> [] \<and>
             (case l of
                Chain items \<Rightarrow> mdl_vars r = hd (ema_entries l)
              | Prefixed d \<Rightarrow>
                  merge_all tree_merge (hd (ema_entries l)) (tl (ema_entries l)) = Inr (mdl_vars r))))
   \<and> (\<forall>items. opt_states model_states = [Chain items] \<longrightarrow> item_entries items \<noteq> [] \<longrightarrow>
          extract_ema tree_merge model_states =
            Inr \<lparr>step = step model_states, mdl_vars = hd (item_entries items), opt_states = []\<rparr>)"
proof (intro conjI allI impI)
  assume "length (opt_states model_states) \<noteq> 1"
  then show "extract_ema tree_merge model_states = Inl ValueError"
    by (simp add: extract_ema_def)
next
  fix l assume "opt_states model_states = [l]" "ema_entries l = []"
  then show "extract_ema tree_merge model_states = Inl ValueError"
    by (rule extract_ema_no_entries)
next
  fix r assume r: "extract_ema tree_merge model_states = Inr r"
  from extract_ema_result [OF r]
  show "step r = step model_states" "opt_states r = []"
    "\<exists>l. opt_states model_states = [l] \<and> ema_entries l \<noteq> [] \<and>
             (case l of
                Chain items \<Rightarrow> mdl_vars r = hd (ema_entries l)
              | Prefixed d \<Rightarrow>
                  merge_all tree_merge (hd (ema_entries l)) (tl (ema_entries l)) = Inr (mdl_vars r))"
    by blast+
next
  fix items assume "opt_states model_states = [Chain items]" "item_entries items \<noteq> []"
  then show "extract_ema tree_merge model_states =
            Inr \<lparr>step = step model_states, mdl_vars = hd (item_entries items), opt_states = []\<rparr>"
    by (rule extract_ema_chain)
qed

theorem extract_ema_spec_witness:
  "extract_ema keep_unmasked example_state = Inr \<lparr>step = 100, mdl_vars = 7, opt_states = []\<rparr>
   \<and> extract_ema keep_unmasked vectorized_state = Inr \<lparr>step = 100, mdl_vars = 7, opt_states = []\<rparr>
   \<and> extract_ema keep_unmasked (trim_opt_states example_state) = Inl ValueError
   \<and> extract_ema keep_unmasked (example_state\<lparr>opt_states := [Chain [OtherItem]]\<rparr>) = Inl ValueError"
  using extract_ema_spec [of example_state keep_unmasked] extract_ema_spec [of "trim_opt_states example_state" keep_unmasked]
    extract_ema_spec [of "example_state\<lparr>opt_states := [Chain [OtherItem]]\<rparr>" keep_unmasked]
  by (simp add: example_state_def vectorized_state_def trim_opt_states_def extract_ema_def
      is_vectorized_def NO_PREFIX_KEY_def keep_unmasked_def)

section \<open>The metric tracker: the properties\<close>

lemma get_model_states_ema:
  "get_model_states tree_merge restored init True track_metric = Inr s \<Longrightarrow> opt_states s = []"
  using extract_ema_result by (fastforce simp: get_model_states_def Let_def)

lemma decode_pmap_restore_ema:
  "decode_pmap_restore tree_merge ms True track_metric = Inr s \<Longrightarrow> opt_states s = []"
  using extract_ema_result by (fastforce simp: decode_pmap_restore_def)

lemma makedirs_keeps:
  "tracker_status (makedirs path fs) = tracker_status fs"
  "filter is_tracker_update (write_log (makedirs path fs)) = filter is_tracker_update (write_log fs)"
  "filter is_save_checkpoint (write_log (makedirs path fs)) = filter is_save_checkpoint (write_log fs)"
  "best_value (makedirs path fs) dir = best_value fs dir"
  by (simp_all add: makedirs_def best_value_def)

lemma MetricTracker_reads:
  "MetricTracker dir m part (Fin float_info_max) fs = (tracker, fs2) \<Longrightarrow>
   metric_value tracker = best_value fs dir \<and> best_value fs2 dir = best_value fs dir
   \<and> filter is_tracker_update (write_log fs2) = filter is_tracker_update (write_log fs)
   \<and> filter is_save_checkpoint (write_log fs2) = filter is_save_checkpoint (write_log fs)"
  by (auto simp: MetricTracker_def best_value_def Let_def split: option.splits)

lemma improve_writes:
  "best_value (save_checkpoint st dir (tracker_update dir tracker v s fs)) dir = v"
  "filter is_tracker_update (write_log (save_checkpoint st dir (tracker_update dir tracker v s fs))) =
     filter is_tracker_update (write_log fs) @ [TrackerUpdate dir v s]"
  "filter is_save_checkpoint (write_log (save_checkpoint st dir (tracker_update dir tracker v s fs))) =
     filter is_save_checkpoint (write_log fs) @ [SaveCheckpoint dir st]"
  by (simp_all add: save_checkpoint_def tracker_update_def best_value_def)

lemma maybe_update_process0:
  "best_value (maybe_update_min_tracked_metric 0 v s dir m part st fs) dir =
     (if flt_less v (best_value fs dir) then v else best_value fs dir)
   \<and> filter is_tracker_update (write_log (maybe_update_min_tracked_metric 0 v s dir m part st fs)) =
       filter is_tracker_update (write_log fs) @
         (if flt_less v (best_value fs dir) then [TrackerUpdate dir v s] else [])
   \<and> filter is_save_checkpoint (write_log (maybe_update_min_tracked_metric 0 v s dir m part st fs)) =
       filter is_save_checkpoint (write_log fs) @
         (if flt_less v (best_value fs dir) then [SaveCheckpoint dir st] else [])"
proof -
  let ?fs1 = "if \<not> gfile_exists fs dir then makedirs dir fs else fs"
  obtain tracker fs2 where t: "MetricTracker dir m part (Fin float_info_max) ?fs1 = (tracker, fs2)"
    by (cases "MetricTracker dir m part (Fin float_info_max) ?fs1")
  have fs1: "best_value ?fs1 dir = best_value fs dir"
    "filter is_tracker_update (write_log ?fs1) = filter is_tracker_update (write_log fs)"
    "filter is_save_checkpoint (write_log ?fs1) = filter is_save_checkpoint (write_log fs)"
    by (simp_all add: makedirs_keeps)
  from MetricTracker_reads [OF t] fs1
  have r: "metric_value tracker = best_value fs dir" "best_value fs2 dir = best_value fs dir"
    "filter is_tracker_update (write_log fs2) = filter is_tracker_update (write_log fs)"
    "filter is_save_checkpoint (write_log fs2) = filter is_save_checkpoint (write_log fs)"
    by simp_all
  have unf: "maybe_update_min_tracked_metric 0 v s dir m part st fs =
     (if flt_less v (metric_value tracker)
      then save_checkpoint st dir (tracker_update dir tracker v s fs2) else fs2)"
    using t by (simp add: maybe_update_min_tracked_metric_def Let_def)
  show ?thesis
    unfolding unf using r by (simp add: improve_writes)
qed

lemma track_all_process0:
  "filter is_tracker_update (write_log (track_all 0 dir m part st vs fs)) =
     filter is_tracker_update (write_log fs) @
       map (\<lambda>(v, s). TrackerUpdate dir v s) (improvements (best_value fs dir) vs)
   \<and> filter is_save_checkpoint (write_log (track_all 0 dir m part st vs fs)) =
     filter is_save_checkpoint (write_log fs) @
       map (\<lambda>(v, s). SaveCheckpoint dir st) (improvements (best_value fs dir) vs)
   \<and> best_value (track_all 0 dir m part st vs fs) dir =
       (if improvements (best_value fs dir) vs = [] then best_value fs dir
        else fst (last (improvements (best_value fs dir) vs)))"
proof (induction vs arbitrary: fs)
  case Nil
  then show ?case by simp
next
  case (Cons x vs)
  obtain v s where x: "x = (v, s)" by (cases x)
  let ?fs' = "maybe_update_min_tracked_metric 0 v s dir m part st fs"
  note one = maybe_update_process0 [of v s dir m part st fs]
  note rest = Cons.IH [of ?fs']
  show ?case
  proof (cases "flt_less v (best_value fs dir)")
    case True
    with one rest x show ?thesis by simp
  next
    case False
    with one rest x show ?thesis by simp
  qed
qed


text \<open>
  Claim C7 (tracker updates), on the process with index 0, the one that writes. Fed a
  sequence of (value, step) pairs, the tracker rewrites the record and saves the
  checkpoint exactly for the values that are strictly smaller than the best value before
  them, the best value being \<open>sys.float_info.max\<close> when there is no record: the updates
  and the checkpoints added to the write log are those of \<open>improvements\<close>, in order, and
  the best value at the end is the last of them. For 5.0, 7.0, 3.0, 3.0, 2.9 the
  improvements are 5.0, 3.0 and 2.9.
\<close>

theorem tracker_rewrites_on_strict_improvement:
  "filter is_tracker_update (write_log (track_all 0 dir m part st vs fs)) =
     filter is_tracker_update (write_log fs) @
       map (\<lambda>(v, s). TrackerUpdate dir v s) (improvements (best_value fs dir) vs)
   \<and> filter is_save_checkpoint (write_log (track_all 0 dir m part st vs fs)) =
     filter is_save_checkpoint (write_log fs) @
       map (\<lambda>(v, s). SaveCheckpoint dir st) (improvements (best_value fs dir) vs)
   \<and> best_value (track_all 0 dir m part st vs fs) dir =
       (if improvements (best_value fs dir) vs = [] then best_value fs dir
        else fst (last (improvements (best_value fs dir) vs)))
   \<and> improvements (Fin float_info_max) [(Fin 5.0, 1), (Fin 7.0, 2), (Fin 3.0, 3), (Fin 3.0, 4), (Fin 2.9, 5)] =
       [(Fin 5.0, 1), (Fin 3.0, 3), (Fin 2.9, 5)]"
proof -
  have "(5::real) < float_info_max" by (simp add: float_info_max_def)
  then have "improvements (Fin float_info_max) [(Fin 5.0, 1), (Fin 7.0, 2), (Fin 3.0, 3), (Fin 3.0, 4), (Fin 2.9, 5)] =
       [(Fin 5.0, 1), (Fin 3.0, 3), (Fin 2.9, 5)]"
    by simp
  with track_all_process0 [of dir m part st vs fs] show ?thesis by blast
qed

theorem tracker_rewrites_on_strict_improvement_witness:
  "filter is_tracker_update (write_log (track_all 0 ''d'' ''wer'' ''test'' example_state
       [(Fin 5.0, 1), (Fin 7.0, 2), (Fin 3.0, 3), (Fin 3.0, 4), (Fin 2.9, 5)] empty_fs)) =
     [TrackerUpdate ''d'' (Fin 5.0) 1, TrackerUpdate ''d'' (Fin 3.0) 3, TrackerUpdate ''d'' (Fin 2.9) 5]
   \<and> filter is_save_checkpoint (write_log (track_all 0 ''d'' ''wer'' ''test'' example_state
       [(Fin 5.0, 1), (Fin 7.0, 2), (Fin 3.0, 3), (Fin 3.0, 4), (Fin 2.9, 5)] empty_fs)) =
     [SaveCheckpoint ''d'' example_state, SaveCheckpoint ''d'' example_state, SaveCheckpoint ''d'' example_state]
   \<and> best_value (track_all 0 ''d'' ''wer'' ''test'' example_state
       [(Fin 5.0, 1), (Fin 7.0, 2), (Fin 3.0, 3), (Fin 3.0, 4), (Fin 2.9, 5)] empty_fs) ''d'' = Fin 2.9"
  using tracker_rewrites_on_strict_improvement [of "''d''" "''wer''" "''test''" example_state
      "[(Fin 5.0, 1), (Fin 7.0, 2), (Fin 3.0, 3), (Fin 3.0, 4), (Fin 2.9, 5)]" empty_fs]
  by (simp add: best_value_def empty_fs_def)

text \<open>
  Claim C8 (the state of a best-so-far checkpoint). The claim says that the state saved
  with a best-so-far checkpoint has no optimizer state, and the comment at the save in
  \<open>maybe_update_min_tracked_metric\<close> says the same of a checkpoint written by a separate
  decoding job. The code does otherwise: with metric tracking enabled and no EMA,
  \<open>get_model_states\<close> and the loop of \<open>decode_pmap_model\<close> hand a restored state on
  untrimmed, the tracker trims nothing, and the checkpoint saved for an improved value is
  that state with its optimizer state.
\<close>

theorem tracked_checkpoint_keeps_optimizer_state:
  "get_model_states keep_unmasked (Some example_state) fresh_state False True = Inr example_state
   \<and> decode_pmap_restore keep_unmasked example_state False True = Inr example_state
   \<and> write_log (maybe_update_min_tracked_metric 0 (Fin 1) 100 ''d'' ''wer'' ''test'' example_state empty_fs) =
       [Makedirs ''d'',
        TrackerCreate ''d'' \<lparr>metric_name = ''wer'', metric_partition = ''test'',
                               metric_value = Fin float_info_max, global_step = 0\<rparr>,
        TrackerUpdate ''d'' (Fin 1) 100,
        SaveCheckpoint ''d'' example_state]
   \<and> opt_states example_state = [Chain [OtherItem, DictItem [(''count'', 3), (''ema'', 7)]]]"
proof -
  have "(1::real) < float_info_max" by (simp add: float_info_max_def)
  then show ?thesis
    by (simp add: get_model_states_def decode_pmap_restore_def maybe_update_min_tracked_metric_def
        MetricTracker_def tracker_update_def save_checkpoint_def makedirs_def gfile_exists_def
        empty_fs_def example_state_def Let_def)
qed

section \<open>The decode pass: skipped splits and the writing process\<close>

lemma decode_splits_all_skipped:
  "\<forall>p \<in> set input_p. can_load (name p) \<Longrightarrow>
   decode_splits pass can_load split input_p inputs fs =
     (Inr (map (\<lambda>p. skipped) input_p, inputs), fs)"
  by (induction input_p arbitrary: split) simp_all

lemma decode_splits_skips:
  "decode_splits pass can_load split input_p inputs fs = (Inr (reports, inputs'), fs') \<Longrightarrow>
   length reports = length input_p \<and>
   (\<forall>i < length input_p. can_load (name (input_p ! i)) \<longrightarrow> reports ! i = skipped)"
proof (induction input_p arbitrary: split inputs fs reports)
  case Nil
  then show ?case by simp
next
  case (Cons p rest)
  show ?case
  proof (cases "can_load (name p)")
    case True
    with Cons.prems obtain rs where
      rec: "decode_splits pass can_load (Suc split) rest inputs fs = (Inr (rs, inputs'), fs')"
      and r: "reports = skipped # rs"
      by (auto split: prod.splits sum.splits)
    from Cons.IH [OF rec] r show ?thesis
      by (auto simp: nth_Cons split: nat.splits)
  next
    case False
    with Cons.prems obtain report inp' fs1 rs where
      rec: "decode_splits pass can_load (Suc split) rest (inputs[split := inp']) fs1 = (Inr (rs, inputs'), fs')"
      and r: "reports = report # rs"
      by (auto split: prod.splits sum.splits if_splits)
    from Cons.IH [OF rec] r False show ?thesis
      by (auto simp: nth_Cons split: nat.splits)
  qed
qed

lemma decode_splits_fs:
  assumes pass: "\<And>p inp fs. snd (pass p inp fs) = fs"
  shows "snd (decode_splits pass can_load split input_p inputs fs) = fs"
proof (induction input_p arbitrary: split inputs)
  case Nil
  then show ?case by simp
next
  case (Cons p rest)
  have skip: "snd (decode_splits pass can_load (Suc split) rest inputs fs) = fs"
    by (rule Cons.IH)
  show ?case
  proof (cases "can_load (name p)")
    case True
    with skip show ?thesis by (auto split: prod.splits sum.splits)
  next
    case False
    show ?thesis
    proof (cases "length inputs \<le> split")
      case True
      with False show ?thesis by simp
    next
      case run: False
      obtain r fs1 where p1: "pass p (inputs ! split) fs = (r, fs1)" by (cases "pass p (inputs ! split) fs")
      with pass [of p "inputs ! split" fs] have fs1: "fs1 = fs" by simp
      show ?thesis
      proof (cases r)
        case (Inl e)
        with False run p1 fs1 show ?thesis by simp
      next
        case (Inr ok)
        obtain report inp' where ok: "ok = (report, inp')" by (cases ok)
        have "snd (decode_splits pass can_load (Suc split) rest (inputs[split := inp']) fs) = fs"
          by (rule Cons.IH)
        with False run p1 fs1 Inr ok show ?thesis
          by (auto split: prod.splits sum.splits)
      qed
    qed
  qed
qed
lemma maybe_update_other_process:
  "pidx \<noteq> 0 \<Longrightarrow> maybe_update_min_tracked_metric pidx v s dir m part st fs = fs"
  by (simp add: maybe_update_min_tracked_metric_def)

lemma decode_pass_pmap_other_process:
  "process_index jb \<noteq> 0 \<Longrightarrow> snd (decode_pass_pmap c jb st p inp fs) = fs"
  by (simp add: decode_pass_pmap_def Let_def maybe_update_other_process
      split: sum.splits prod.splits option.splits)

lemma decode_pass_spmd_other_process:
  "process_index jb \<noteq> 0 \<Longrightarrow> snd (decode_pass_spmd c jb st p inp fs) = fs"
  by (simp add: decode_pass_spmd_def Let_def split: sum.splits prod.splits)

text \<open>
  Claim C5 (skip of a decoded split), in both modes. When the outputs of every split can
  be loaded for the step, a decode run hands no batch to the decode step, reports 0 steps
  and \<open>None\<close> metrics for every split, and leaves inputs and file system as they were, so
  that a further run does the same. In any run that returns, a split whose outputs can be
  loaded has no call of the decode step, 0 steps and \<open>None\<close> metrics.
\<close>

theorem skipped_split_runs_nothing:
  "((\<forall>p \<in> set input_p. can_load_decode_outs c (job_log_dir jb) (name p) (step st)) \<longrightarrow>
      decode_once_pmap_model c jb st input_p inputs fs =
        (Inr (map (\<lambda>p. \<lparr>decode_metrics_entry = None, processed_decode_metrics_entry = None,
                         num_decode_steps = 0, executor_calls = []\<rparr>) input_p, inputs), fs)
      \<and> decode_once_spmd_model c jb st input_p inputs fs =
        (Inr (map (\<lambda>p. \<lparr>decode_metrics_entry = None, processed_decode_metrics_entry = None,
                         num_decode_steps = 0, executor_calls = []\<rparr>) input_p, inputs), fs))
   \<and> (\<forall>reports inputs' fs' i.
        (decode_once_pmap_model c jb st input_p inputs fs = (Inr (reports, inputs'), fs')
         \<or> decode_once_spmd_model c jb st input_p inputs fs = (Inr (reports, inputs'), fs')) \<longrightarrow>
        i < length input_p \<longrightarrow>
        can_load_decode_outs c (job_log_dir jb) (name (input_p ! i)) (step st) \<longrightarrow>
        executor_calls (reports ! i) = [] \<and> num_decode_steps (reports ! i) = 0 \<and>
        decode_metrics_entry (reports ! i) = None \<and> processed_decode_metrics_entry (reports ! i) = None)"
proof (intro conjI impI allI)
  assume all: "\<forall>p \<in> set input_p. can_load_decode_outs c (job_log_dir jb) (name p) (step st)"
  then show "decode_once_pmap_model c jb st input_p inputs fs =
        (Inr (map (\<lambda>p. \<lparr>decode_metrics_entry = None, processed_decode_metrics_entry = None,
                         num_decode_steps = 0, executor_calls = []\<rparr>) input_p, inputs), fs)"
    by (simp add: decode_once_pmap_model_def decode_splits_all_skipped skipped_def)
  from all show "decode_once_spmd_model c jb st input_p inputs fs =
        (Inr (map (\<lambda>p. \<lparr>decode_metrics_entry = None, processed_decode_metrics_entry = None,
                         num_decode_steps = 0, executor_calls = []\<rparr>) input_p, inputs), fs)"
    by (simp add: decode_once_spmd_model_def decode_splits_all_skipped skipped_def)
next
  fix reports inputs' fs' i
  assume run: "decode_once_pmap_model c jb st input_p inputs fs = (Inr (reports, inputs'), fs')
         \<or> decode_once_spmd_model c jb st input_p inputs fs = (Inr (reports, inputs'), fs')"
    and i: "i < length input_p"
    and load: "can_load_decode_outs c (job_log_dir jb) (name (input_p ! i)) (step st)"
  from i have ne: "input_p \<noteq> []" by auto
  from run have "reports ! i = skipped"
  proof (rule disjE)
    assume "decode_once_pmap_model c jb st input_p inputs fs = (Inr (reports, inputs'), fs')"
    with ne have "decode_splits (decode_pass_pmap c jb st)
             (\<lambda>pname. can_load_decode_outs c (job_log_dir jb) pname (step st))
             0 input_p inputs fs = (Inr (reports, inputs'), fs')"
      by (simp add: decode_once_pmap_model_def)
    from decode_splits_skips [OF this] i load show ?thesis by simp
  next
    assume "decode_once_spmd_model c jb st input_p inputs fs = (Inr (reports, inputs'), fs')"
    then have "decode_splits (decode_pass_spmd c jb st)
             (\<lambda>pname. can_load_decode_outs c (job_log_dir jb) pname (step st))
             0 input_p inputs fs = (Inr (reports, inputs'), fs')"
      by (simp add: decode_once_spmd_model_def)
    from decode_splits_skips [OF this] i load show ?thesis by simp
  qed
  then show "executor_calls (reports ! i) = []" "num_decode_steps (reports ! i) = 0"
    "decode_metrics_entry (reports ! i) = None" "processed_decode_metrics_entry (reports ! i) = None"
    by (simp_all add: skipped_def)
qed

theorem skipped_split_runs_nothing_witness:
  "can_load_decode_outs loaded_collaborators (job_log_dir (example_job 0)) (name example_split) (step example_state)
   \<and> decode_once_pmap_model loaded_collaborators (example_job 0) example_state [example_split]
         [\<lparr>batches = [4, 5, 6], pos = 0\<rparr>] empty_fs =
       (Inr ([\<lparr>decode_metrics_entry = None, processed_decode_metrics_entry = None,
               num_decode_steps = 0, executor_calls = []\<rparr>], [\<lparr>batches = [4, 5, 6], pos = 0\<rparr>]), empty_fs)
   \<and> decode_once_spmd_model loaded_collaborators (example_job 0) example_state [example_split]
         [\<lparr>batches = [4, 5, 6], pos = 0\<rparr>] empty_fs =
       (Inr ([\<lparr>decode_metrics_entry = None, processed_decode_metrics_entry = None,
               num_decode_steps = 0, executor_calls = []\<rparr>], [\<lparr>batches = [4, 5, 6], pos = 0\<rparr>]), empty_fs)"
proof -
  have l: "can_load_decode_outs loaded_collaborators (job_log_dir (example_job 0)) (name example_split) (step example_state)"
    by (simp add: can_load_decode_outs_def loaded_collaborators_def)
  with skipped_split_runs_nothing [of "[example_split]" loaded_collaborators "example_job 0" example_state
      "[\<lparr>batches = [4, 5, 6], pos = 0\<rparr>]" empty_fs]
  show ?thesis by simp
qed

text \<open>
  Claim C9 (one writer). On a process whose index is not 0, a decode run in either mode
  leaves the file system as it was, whether it returns or raises, and so does the update
  of the tracked metric: directories, decoder output files, tracker records and tracker
  checkpoints are written under the \<open>process_index == 0\<close> guards only. The summary
  writers, the seqio post-processing and the hyper-parameter file are written by
  collaborators that are not among the sources; they are outside this statement.
\<close>

theorem other_processes_write_nothing:
  "process_index jb \<noteq> 0 \<Longrightarrow>
   snd (decode_once_pmap_model c jb st input_p inputs fs) = fs
   \<and> snd (decode_once_spmd_model c jb st input_p inputs fs) = fs
   \<and> maybe_update_min_tracked_metric (process_index jb) m_value step_i dir track_metric part st fs = fs"
  by (simp add: decode_once_pmap_model_def decode_once_spmd_model_def decode_splits_fs
      decode_pass_pmap_other_process decode_pass_spmd_other_process maybe_update_other_process)

theorem other_processes_write_nothing_witness:
  "process_index (example_job 1) \<noteq> 0
   \<and> snd (decode_once_pmap_model example_collaborators (example_job 1) example_state [example_split]
         [\<lparr>batches = [4, 5, 6], pos = 0\<rparr>] empty_fs) = empty_fs
   \<and> snd (decode_once_spmd_model example_collaborators (example_job 1) example_state [example_split]
         [\<lparr>batches = [4, 5, 6], pos = 0\<rparr>] empty_fs) = empty_fs
   \<and> maybe_update_min_tracked_metric (process_index (example_job 1)) (Fin 1) 100 ''d'' ''wer'' ''test''
        example_state empty_fs = empty_fs
   \<and> write_log (snd (decode_once_pmap_model example_collaborators (example_job 0) example_state
         [example_split] [\<lparr>batches = [4, 5, 6], pos = 0\<rparr>] empty_fs)) =
       [Makedirs ''job/decoder_out/test/wer_min_tracker'',
        TrackerCreate ''job/decoder_out/test/wer_min_tracker''
          \<lparr>metric_name = ''wer'', metric_partition = ''test'',
           metric_value = Fin float_info_max, global_step = 0\<rparr>,
        TrackerUpdate ''job/decoder_out/test/wer_min_tracker'' (Fin 1) 100,
        SaveCheckpoint ''job/decoder_out/test/wer_min_tracker'' example_state,
        WriteKeyValuePairs ''job/decoder_out/test'' 100 0 [4, 5]]"
proof -
  have lt: "(1::real) < float_info_max" by (simp add: float_info_max_def)
  have loop: "decode_while (decode_body_pmap example_collaborators 0) 2 0
        \<lparr>batches = [4, 5, 6], pos = 0\<rparr> empty_acc =
      Inr (2, \<lparr>batches = [4, 5, 6], pos = 2\<rparr>,
           \<lparr>calls = [4, 5], decode_metrics = [(), ()], metrics = [],
            process_decode_metrics = [(), ()], processed_decodes = [4, 5],
            processed_metrics = []\<rparr>)"
    by (simp add: decode_while.simps get_next_padded_def decode_body_pmap_def
        example_collaborators_def merge_clu_metrics_def process_on_host0_def empty_acc_def)
  have host0: "write_log (snd (decode_once_pmap_model example_collaborators (example_job 0) example_state
         [example_split] [\<lparr>batches = [4, 5, 6], pos = 0\<rparr>] empty_fs)) =
       [Makedirs ''job/decoder_out/test/wer_min_tracker'',
        TrackerCreate ''job/decoder_out/test/wer_min_tracker''
          \<lparr>metric_name = ''wer'', metric_partition = ''test'',
           metric_value = Fin float_info_max, global_step = 0\<rparr>,
        TrackerUpdate ''job/decoder_out/test/wer_min_tracker'' (Fin 1) 100,
        SaveCheckpoint ''job/decoder_out/test/wer_min_tracker'' example_state,
        WriteKeyValuePairs ''job/decoder_out/test'' 100 0 [4, 5]]"
    using lt
    by (simp add: decode_once_pmap_model_def can_load_decode_outs_def decode_pass_pmap_def
        example_job_def example_split_def num_steps_of_def loop Let_def
        maybe_update_min_tracked_metric_def MetricTracker_def tracker_update_def
        save_checkpoint_def makedirs_def gfile_exists_def write_decoder_outputs_def
        write_key_value_pairs_def path_join_def path_and_parents_def empty_fs_def)
       (simp add: example_collaborators_def example_state_def)
  from host0 other_processes_write_nothing [of "example_job 1" example_collaborators example_state
      "[example_split]" "[\<lparr>batches = [4, 5, 6], pos = 0\<rparr>]" empty_fs "Fin 1" 100 "''d''" "''wer''" "''test''"]
  show ?thesis by (simp add: example_job_def)
qed

end
